theory Spec2Isabelle
  imports Complex_Main "HOL-Library.Word" "HOL-Library.Multiset"
begin

section \<open>SysGoMon: the sampling-to-visualisation pipeline of \<open>main.go\<close>\<close>

text \<open>
  The development embeds the pure parts of \<open>main.go\<close>: the command truncation of the
  process list, the history buffers of the network and disk graphs, the adaptive graph
  scale, the gauge animation, the rate computation and the resize and tick handlers
  of the event loop.

  Conventions of the embedding.
  \<^item> A Go \<open>float64\<close> is modelled by the real number it denotes. Arithmetic is exact,
    except in the second, rounded form of the gauge animation (\<open>animateCPUGauge_f64\<close>),
    where rounding to 53 bits decides whether the animation converges. The values
    \<open>+Inf\<close>, \<open>-Inf\<close> and \<open>NaN\<close> appear only as outcomes of the one division whose
    divisor may be zero (the elapsed duration of the rate computation).
  \<^item> The \<open>int\<close> width of \<open>formatCommand\<close>, whose subtraction can wrap, is a 64-bit
    two's complement word (the release builds target amd64 and arm64); a \<open>uint64\<close>
    counter is a 64-bit word read unsigned; lengths, counts and terminal widths, which
    the program only compares, are mathematical integers.
  \<^item> A slice is a list; an index or slice expression out of range is a run-time
    panic, which the model returns as \<open>Inl\<close> of an \<open>error\<close>.
  \<^item> The widgets of the rendering surface and \<open>fmt.Sprintf\<close> are outside the model;
    formatted text is produced by formatting functions taken as parameters.
\<close>

subsection \<open>Run-time panics\<close>

datatype error =
    IndexOutOfRange
  | SliceBoundsOutOfRange
  | MakeLenOutOfRange
  | NonFiniteFloat

type_synonym float64 = real

subsection \<open>Process list: \<open>formatCommand\<close>\<close>

text \<open>
  \<^verbatim>\<open>
  func (pl *ProcessList) formatCommand(cmd string, width int) string {
      if len(cmd) > width {
          return cmd[:width-3] + "..."
      }
      return cmd
  }
  \<close>
  The slice expression \<open>cmd[:hi]\<close> panics unless \<open>0 \<le> hi \<le> len(cmd)\<close>; the
  subtraction \<open>width-3\<close> wraps around in 64 bits.
\<close>

definition formatCommand :: "string \<Rightarrow> 64 word \<Rightarrow> error + string" where
  "formatCommand cmd width =
     (if sint width < int (length cmd) then
        (let hi = sint (width - 3) in
         if hi < 0 \<or> int (length cmd) < hi then Inl SliceBoundsOutOfRange
         else Inr (take (nat hi) cmd @ ''...''))
      else Inr cmd)"

subsection \<open>History buffers\<close>

record NetworkData =
  RxData :: "float64 list"
  TxData :: "float64 list"
  MaxValue :: float64

record DiskData =
  ReadData :: "float64 list"
  WriteData :: "float64 list"
  DiskMaxValue :: float64

text \<open>
  The loop shared by \<open>shiftNetworkData\<close> and \<open>shiftDiskData\<close>:
  \<^verbatim>\<open>
  for i := 0; i < len(netData.RxData)-1; i++ {
      netData.RxData[i] = netData.RxData[i+1]
      netData.TxData[i] = netData.TxData[i+1]
  }
  \<close>
  The bound is the length of the first slice; the second slice is indexed with the
  same \<open>i+1\<close> and panics when it is shorter.
\<close>

function shiftLoop ::
  "nat \<Rightarrow> float64 list \<Rightarrow> float64 list \<Rightarrow> error + (float64 list \<times> float64 list)" where
  "shiftLoop i xs ys =
     (if int i < int (length xs) - 1 then
        (if i + 1 < length ys
         then shiftLoop (i + 1) (xs[i := xs ! (i + 1)]) (ys[i := ys ! (i + 1)])
         else Inl IndexOutOfRange)
      else Inr (xs, ys))"
  by pat_completeness auto
termination
  by (relation "measure (\<lambda>(i, xs, ys). length xs - i)") auto

declare shiftLoop.simps [simp del]

definition shiftNetworkData :: "NetworkData \<Rightarrow> error + NetworkData" where
  "shiftNetworkData netData =
     (case shiftLoop 0 (RxData netData) (TxData netData) of
        Inl e \<Rightarrow> Inl e
      | Inr (rx, tx) \<Rightarrow> Inr (netData\<lparr>RxData := rx, TxData := tx\<rparr>))"

text \<open>
  \<^verbatim>\<open>
  netData.RxData[len(netData.RxData)-1] = rxMbps
  netData.TxData[len(netData.TxData)-1] = txMbps
  \<close>
  Index \<open>-1\<close> of an empty slice panics.
\<close>

definition addNetworkData :: "NetworkData \<Rightarrow> float64 \<Rightarrow> float64 \<Rightarrow> error + NetworkData" where
  "addNetworkData netData rxMbps txMbps =
     (if RxData netData = [] \<or> TxData netData = [] then Inl IndexOutOfRange
      else Inr (netData\<lparr>
        RxData := (RxData netData)[length (RxData netData) - 1 := rxMbps],
        TxData := (TxData netData)[length (TxData netData) - 1 := txMbps]\<rparr>))"

definition shiftDiskData :: "DiskData \<Rightarrow> error + DiskData" where
  "shiftDiskData diskData =
     (case shiftLoop 0 (ReadData diskData) (WriteData diskData) of
        Inl e \<Rightarrow> Inl e
      | Inr (rd, wr) \<Rightarrow> Inr (diskData\<lparr>ReadData := rd, WriteData := wr\<rparr>))"

definition addDiskData :: "DiskData \<Rightarrow> float64 \<Rightarrow> float64 \<Rightarrow> error + DiskData" where
  "addDiskData diskData readMBps writeMBps =
     (if ReadData diskData = [] \<or> WriteData diskData = [] then Inl IndexOutOfRange
      else Inr (diskData\<lparr>
        ReadData := (ReadData diskData)[length (ReadData diskData) - 1 := readMBps],
        WriteData := (WriteData diskData)[length (WriteData diskData) - 1 := writeMBps]\<rparr>))"

subsection \<open>Adaptive scale\<close>

text \<open>
  \<^verbatim>\<open>
  func maxInSlice(values []float64) float64 {
      if len(values) == 0 { return 0 }
      max := values[0]
      for _, v := range values { if v > max { max = v } }
      return max
  }
  func max(a, b float64) float64 { if a > b { return a }; return b }
  func abs(x float64) float64 { if x < 0 { return -x }; return x }
  \<close>
  The helpers \<open>max\<close> and \<open>abs\<close> of \<open>main.go\<close> carry the suffix \<open>_f\<close> here.
\<close>

definition maxInSlice :: "float64 list \<Rightarrow> float64" where
  "maxInSlice values =
     (case values of
        [] \<Rightarrow> 0
      | v0 # _ \<Rightarrow> fold (\<lambda>v m. if v > m then v else m) values v0)"

definition max_f :: "float64 \<Rightarrow> float64 \<Rightarrow> float64" where
  "max_f a b = (if a > b then a else b)"

definition abs_f :: "float64 \<Rightarrow> float64" where
  "abs_f x = (if x < 0 then - x else x)"

text \<open>
  \<^verbatim>\<open>
  currentMax := max(maxInSlice(netData.RxData), maxInSlice(netData.TxData))
  if currentMax > netData.MaxValue {
      netData.MaxValue = netData.MaxValue + (currentMax-netData.MaxValue)*0.3
  } else if currentMax < netData.MaxValue*0.5 && netData.MaxValue > 1.0 {
      netData.MaxValue = netData.MaxValue - (netData.MaxValue-currentMax)*0.05
  }
  if netData.MaxValue < 0.1 { netData.MaxValue = 0.1 }
  \<close>
\<close>

definition updateNetworkMaxValue :: "NetworkData \<Rightarrow> NetworkData" where
  "updateNetworkMaxValue netData =
     (let currentMax = max_f (maxInSlice (RxData netData)) (maxInSlice (TxData netData));
          m = (if currentMax > MaxValue netData
               then MaxValue netData + (currentMax - MaxValue netData) * 0.3
               else if currentMax < MaxValue netData * 0.5 \<and> MaxValue netData > 1.0
               then MaxValue netData - (MaxValue netData - currentMax) * 0.05
               else MaxValue netData)
      in netData\<lparr>MaxValue := (if m < 0.1 then 0.1 else m)\<rparr>)"

definition updateDiskMaxValue :: "DiskData \<Rightarrow> DiskData" where
  "updateDiskMaxValue diskData =
     (let currentMax = max_f (maxInSlice (ReadData diskData)) (maxInSlice (WriteData diskData));
          m = (if currentMax > DiskMaxValue diskData
               then DiskMaxValue diskData + (currentMax - DiskMaxValue diskData) * 0.3
               else if currentMax < DiskMaxValue diskData * 0.5 \<and> DiskMaxValue diskData > 1.0
               then DiskMaxValue diskData - (DiskMaxValue diskData - currentMax) * 0.05
               else DiskMaxValue diskData)
      in diskData\<lparr>DiskMaxValue := (if m < 0.1 then 0.1 else m)\<rparr>)"

text \<open>
  \<open>updateNetworkGraph\<close> and \<open>updateDiskGraph\<close>: shift, add, update the scale. The
  last call of each, which hands the data to the plot widget and renders it, changes
  no state of the model.
\<close>

definition updateNetworkGraph :: "NetworkData \<Rightarrow> float64 \<Rightarrow> float64 \<Rightarrow> error + NetworkData" where
  "updateNetworkGraph netData rxMbps txMbps =
     (case shiftNetworkData netData of
        Inl e \<Rightarrow> Inl e
      | Inr shifted \<Rightarrow>
          (case addNetworkData shifted rxMbps txMbps of
             Inl e \<Rightarrow> Inl e
           | Inr added \<Rightarrow> Inr (updateNetworkMaxValue added)))"

definition updateDiskGraph :: "DiskData \<Rightarrow> float64 \<Rightarrow> float64 \<Rightarrow> error + DiskData" where
  "updateDiskGraph diskData readMBps writeMBps =
     (case shiftDiskData diskData of
        Inl e \<Rightarrow> Inl e
      | Inr shifted \<Rightarrow>
          (case addDiskData shifted readMBps writeMBps of
             Inl e \<Rightarrow> Inl e
           | Inr added \<Rightarrow> Inr (updateDiskMaxValue added)))"

text \<open>A run of ticks: \<open>updateNetworkGraph\<close> called once per sample, in order.\<close>

fun updateNetworkGraph_seq :: "NetworkData \<Rightarrow> (float64 \<times> float64) list \<Rightarrow> error + NetworkData" where
  "updateNetworkGraph_seq netData [] = Inr netData"
| "updateNetworkGraph_seq netData ((rxMbps, txMbps) # rest) =
     (case updateNetworkGraph netData rxMbps txMbps of
        Inl e \<Rightarrow> Inl e
      | Inr netData' \<Rightarrow> updateNetworkGraph_seq netData' rest)"

fun updateDiskGraph_seq :: "DiskData \<Rightarrow> (float64 \<times> float64) list \<Rightarrow> error + DiskData" where
  "updateDiskGraph_seq diskData [] = Inr diskData"
| "updateDiskGraph_seq diskData ((readMBps, writeMBps) # rest) =
     (case updateDiskGraph diskData readMBps writeMBps of
        Inl e \<Rightarrow> Inl e
      | Inr diskData' \<Rightarrow> updateDiskGraph_seq diskData' rest)"

subsection \<open>Growing the history buffers on resize\<close>

text \<open>
  \<open>make([]float64, n)\<close> is a slice of \<open>n\<close> zeros. \<open>copy(dst, src)\<close> copies
  \<open>min(len(dst), len(src))\<close> elements. \<open>copy(new[lo:], src)\<close> writes into the tail of
  \<open>new\<close> from index \<open>lo\<close> and panics unless \<open>0 \<le> lo \<le> len(new)\<close>.
\<close>

definition make_float64 :: "int \<Rightarrow> float64 list" where
  "make_float64 n = replicate (nat n) 0"

definition copy_go :: "'a list \<Rightarrow> 'a list \<Rightarrow> 'a list" where
  "copy_go dst src =
     (let k = min (length dst) (length src) in take k src @ drop k dst)"

definition copy_from :: "'a list \<Rightarrow> int \<Rightarrow> 'a list \<Rightarrow> error + 'a list" where
  "copy_from new lo src =
     (if lo < 0 \<or> int (length new) < lo then Inl SliceBoundsOutOfRange
      else Inr (take (nat lo) new @ copy_go (drop (nat lo) new) src))"

text \<open>
  \<^verbatim>\<open>
  if dataPointCount > len(netData.RxData) {
      newRxData := make([]float64, dataPointCount)
      newTxData := make([]float64, dataPointCount)
      copy(newRxData[dataPointCount-len(netData.RxData):], netData.RxData)
      copy(newTxData[dataPointCount-len(netData.TxData):], netData.TxData)
      netData.RxData = newRxData
      netData.TxData = newTxData
  }
  \<close>
  and the same block for \<open>diskData\<close>.
\<close>

definition growNetworkData :: "int \<Rightarrow> NetworkData \<Rightarrow> error + NetworkData" where
  "growNetworkData dataPointCount netData =
     (if dataPointCount > int (length (RxData netData)) then
        (case copy_from (make_float64 dataPointCount)
                (dataPointCount - int (length (RxData netData))) (RxData netData) of
           Inl e \<Rightarrow> Inl e
         | Inr newRxData \<Rightarrow>
             (case copy_from (make_float64 dataPointCount)
                     (dataPointCount - int (length (TxData netData))) (TxData netData) of
                Inl e \<Rightarrow> Inl e
              | Inr newTxData \<Rightarrow> Inr (netData\<lparr>RxData := newRxData, TxData := newTxData\<rparr>)))
      else Inr netData)"

definition growDiskData :: "int \<Rightarrow> DiskData \<Rightarrow> error + DiskData" where
  "growDiskData dataPointCount diskData =
     (if dataPointCount > int (length (ReadData diskData)) then
        (case copy_from (make_float64 dataPointCount)
                (dataPointCount - int (length (ReadData diskData))) (ReadData diskData) of
           Inl e \<Rightarrow> Inl e
         | Inr newReadData \<Rightarrow>
             (case copy_from (make_float64 dataPointCount)
                     (dataPointCount - int (length (WriteData diskData))) (WriteData diskData) of
                Inl e \<Rightarrow> Inl e
              | Inr newWriteData \<Rightarrow>
                  Inr (diskData\<lparr>ReadData := newReadData, WriteData := newWriteData\<rparr>)))
      else Inr diskData)"

text \<open>
  \<^verbatim>\<open>
  dataPointCount := termWidth
  if dataPointCount < 100 { dataPointCount = 100 }
  \<close>
\<close>

definition dataPointCount :: "int \<Rightarrow> int" where
  "dataPointCount termWidth = (if termWidth < 100 then 100 else termWidth)"

subsection \<open>CPU gauges\<close>

datatype color = ColorGreen | ColorYellow | ColorRed

record CPUGauge =
  CurrentPercent :: float64
  TargetPercent :: float64
  Percent :: int
  BarColor :: color

text \<open>The conversion \<open>int(x)\<close> of a \<open>float64\<close> discards the fraction (towards zero).\<close>

definition int_of_float64 :: "float64 \<Rightarrow> int" where
  "int_of_float64 x = (if x < 0 then \<lceil>x\<rceil> else \<lfloor>x\<rfloor>)"

text \<open>
  The body of the loop of \<open>animateCPUGauges\<close>, for one gauge:
  \<^verbatim>\<open>
  diff := gauges[i].TargetPercent - gauges[i].CurrentPercent
  if abs(diff) < 0.5 {
      gauges[i].CurrentPercent = gauges[i].TargetPercent
  } else {
      gauges[i].CurrentPercent += diff * speed
  }
  intPercent := int(gauges[i].CurrentPercent)
  gauges[i].Gauge.Percent = intPercent
  if intPercent >= 80 { BarColor = ColorRed }
  else if intPercent >= 50 { BarColor = ColorYellow }
  else { BarColor = ColorGreen }
  \<close>
\<close>

definition animateCPUGauge :: "float64 \<Rightarrow> CPUGauge \<Rightarrow> CPUGauge" where
  "animateCPUGauge speed g =
     (let diff = TargetPercent g - CurrentPercent g;
          current = (if abs_f diff < 0.5 then TargetPercent g
                     else CurrentPercent g + diff * speed);
          intPercent = int_of_float64 current
      in g\<lparr>CurrentPercent := current,
            Percent := intPercent,
            BarColor := (if intPercent \<ge> 80 then ColorRed
                         else if intPercent \<ge> 50 then ColorYellow
                         else ColorGreen)\<rparr>)"

definition animateCPUGauges :: "CPUGauge list \<Rightarrow> float64 \<Rightarrow> CPUGauge list" where
  "animateCPUGauges gauges speed = map (animateCPUGauge speed) gauges"

text \<open>Ticks of the animation with the targets held fixed.\<close>

definition animateCPUGauges_ticks :: "nat \<Rightarrow> float64 \<Rightarrow> CPUGauge list \<Rightarrow> CPUGauge list" where
  "animateCPUGauges_ticks n speed gauges = ((\<lambda>gs. animateCPUGauges gs speed) ^^ n) gauges"

text \<open>
  Whether the animation reaches its target depends on the rounding of \<open>float64\<close>
  arithmetic: an increment \<open>diff * speed\<close> smaller than half the spacing of the
  \<open>float64\<close> values around \<open>current\<close> is absorbed by the addition. For this question
  the loop body is given a second time with every operation rounded as IEEE 754
  binary64 rounds it (to nearest, ties to even).

  \<open>float64_exponent x\<close> is the binary exponent of a positive \<open>x\<close>: the \<open>e\<close> with
  \<open>2^e \<le> x < 2^(e+1)\<close>.
\<close>

function float64_exponent :: "real \<Rightarrow> int" where
  "float64_exponent x =
     (if x \<le> 0 then 0
      else if 2 \<le> x then float64_exponent (x / 2) + 1
      else if x < 1 then float64_exponent (x * 2) - 1
      else 0)"
  by pat_completeness auto
termination
proof (relation "measure (\<lambda>x. if 1 \<le> x then nat \<lfloor>x\<rfloor> else nat \<lfloor>1 / x\<rfloor> + 1)")
  show "wf (measure (\<lambda>x::real. if 1 \<le> x then nat \<lfloor>x\<rfloor> else nat \<lfloor>1 / x\<rfloor> + 1))" by simp
next
  fix x :: real
  assume "\<not> x \<le> 0" "2 \<le> x"
  then have "\<lfloor>x / 2\<rfloor> < \<lfloor>x\<rfloor>" "0 \<le> \<lfloor>x / 2\<rfloor>" by linarith+
  then show "(x / 2, x) \<in> measure (\<lambda>x. if 1 \<le> x then nat \<lfloor>x\<rfloor> else nat \<lfloor>1 / x\<rfloor> + 1)"
    using \<open>2 \<le> x\<close> by simp
next
  fix x :: real
  assume a: "\<not> x \<le> 0" "\<not> 2 \<le> x" "x < 1"
  show "(x * 2, x) \<in> measure (\<lambda>x. if 1 \<le> x then nat \<lfloor>x\<rfloor> else nat \<lfloor>1 / x\<rfloor> + 1)"
  proof (cases "1 \<le> x * 2")
    case True
    then have "\<lfloor>x * 2\<rfloor> = 1" using a by linarith
    moreover have "1 \<le> \<lfloor>1 / x\<rfloor>" using a by (simp add: le_floor_iff)
    ultimately show ?thesis using True a by simp
  next
    case False
    have "1 / (x * 2) = (1 / x) / 2" by simp
    moreover have "2 < 1 / x" using False a by (simp add: field_simps)
    ultimately have "\<lfloor>1 / (x * 2)\<rfloor> < \<lfloor>1 / x\<rfloor>" "0 \<le> \<lfloor>1 / (x * 2)\<rfloor>" by linarith+
    then show ?thesis using False a by simp
  qed
qed

declare float64_exponent.simps [simp del]

text \<open>Rounding to the nearest integer, a tie to the even one.\<close>

definition round_half_even :: "real \<Rightarrow> int" where
  "round_half_even y =
     (let n = \<lfloor>y\<rfloor>; f = y - of_int n in
      if f < 1/2 then n
      else if 1/2 < f then n + 1
      else if even n then n else n + 1)"

text \<open>
  \<open>float64_round x\<close> is the \<open>float64\<close> value nearest to the real \<open>x\<close>: a multiple of
  \<open>2^(e - 52)\<close>, where \<open>e\<close> is the exponent of \<open>x\<close>, and not below \<open>-1022\<close>, the exponent
  of the subnormal values. Overflow to an infinity is not modelled (the values of the
  animation of gauges within \<open>[0, 100]\<close> stay below \<open>200\<close>).
\<close>

definition float64_round :: "real \<Rightarrow> real" where
  "float64_round x =
     (if x = 0 then 0
      else (let e = max (float64_exponent \<bar>x\<bar>) (- 1022);
                q = 2 powi (e - 52)
            in of_int (round_half_even (x / q)) * q))"





text \<open>
  A call of the Metrics Provider returns a value and an error, as in Go; \<open>Some msg\<close>
  is \<open>err != nil\<close>.
\<close>

type_synonym 'a provided = "'a \<times> string option"

text \<open>
  \<open>createCPUGauges\<close>: \<open>cpuCount\<close> is the provider's count, or \<open>1\<close> when the call
  fails; \<open>make([]CPUGauge, cpuCount+1)\<close> panics on a negative length and
  \<open>gauges[0]\<close> on an empty slice. Every element is then assigned
  \<open>CPUGauge{Gauge: widgets.NewGauge(), CurrentPercent: 0, TargetPercent: 0}\<close> with
  a green bar; the rectangles of the widgets are outside the model.
\<close>

definition newCPUGauge :: CPUGauge where
  "newCPUGauge = \<lparr>CurrentPercent = 0, TargetPercent = 0, Percent = 0, BarColor = ColorGreen\<rparr>"

definition createCPUGauges :: "int provided \<Rightarrow> error + CPUGauge list" where
  "createCPUGauges counts =
     (let cpuCount = (case snd counts of Some err \<Rightarrow> 1 | None \<Rightarrow> fst counts) in
      if cpuCount + 1 < 0 then Inl MakeLenOutOfRange
      else if cpuCount + 1 = 0 then Inl IndexOutOfRange
      else Inr (replicate (nat (cpuCount + 1)) newCPUGauge))"

subsection \<open>Rates\<close>

text \<open>
  The quotient of two \<open>float64\<close> values. Go does not panic on a zero divisor: the
  result is an infinity, or \<open>NaN\<close> for \<open>0/0\<close>.
\<close>

datatype quotient = Quot float64 | PosInf | NegInf | NaN

definition fdiv :: "float64 \<Rightarrow> float64 \<Rightarrow> quotient" where
  "fdiv x y =
     (if y \<noteq> 0 then Quot (x / y)
      else if x > 0 then PosInf
      else if x < 0 then NegInf
      else NaN)"

text \<open>
  The rate expression of the tick, the same for the four counters:
  \<^verbatim>\<open>
  rxBytesPerSec := float64(netIOCounters[0].BytesRecv-prevNetIOStats.BytesRecv) / duration
  \<close>
  The counters are \<open>uint64\<close>: the subtraction wraps around.
\<close>

definition bytesPerSec :: "64 word \<Rightarrow> 64 word \<Rightarrow> float64 \<Rightarrow> quotient" where
  "bytesPerSec currBytes prevBytes duration = fdiv (real (unat (currBytes - prevBytes))) duration"

subsection \<open>The state of the event loop\<close>

record IOCountersStat =
  BytesRecv :: "64 word"
  BytesSent :: "64 word"

record DiskIOCountersStat =
  ReadBytes :: "64 word"
  WriteBytes :: "64 word"

record monitor =
  cpuGauges :: "CPUGauge list"
  netData :: NetworkData
  netText :: string
  prevNetIOStats :: IOCountersStat
  lastNetworkUpdate :: real
  diskData :: DiskData
  diskText :: string
  prevDiskIOStats :: "string \<rightharpoonup> DiskIOCountersStat"
  lastDiskUpdate :: real

text \<open>
  The baseline readings of \<open>main\<close>, before the loop:
  \<^verbatim>\<open>
  netIOCounters, err := net.IOCounters(false)
  if err != nil {
      log.Printf("Error getting network stats: %v", err)
  }
  prevNetIOStats := netIOCounters[0]
  \<close>
  The error is logged and the slice is indexed whatever the error.
  \<^verbatim>\<open>
  diskIOCounters, err := disk.IOCounters()
  if err != nil { log.Printf(...) }
  prevDiskIOStats := make(map[string]disk.IOCountersStat)
  for name, stat := range diskIOCounters { prevDiskIOStats[name] = stat }
  \<close>
  A map of the provider is an association list, in the order of the iteration.
\<close>

definition baselineNetIOStats :: "IOCountersStat list provided \<Rightarrow> error + IOCountersStat" where
  "baselineNetIOStats netIOCounters =
     (case fst netIOCounters of
        [] \<Rightarrow> Inl IndexOutOfRange
      | c # _ \<Rightarrow> Inr c)"

definition baselineDiskIOStats ::
  "(string \<times> DiskIOCountersStat) list provided \<Rightarrow> (string \<rightharpoonup> DiskIOCountersStat)" where
  "baselineDiskIOStats diskIOCounters =
     fold (\<lambda>(name, stat) prev. prev(name \<mapsto> stat)) (fst diskIOCounters) Map.empty"

definition initMonitor ::
  "int \<Rightarrow> int provided \<Rightarrow> IOCountersStat list provided \<Rightarrow> real \<Rightarrow>
   (string \<times> DiskIOCountersStat) list provided \<Rightarrow> real \<Rightarrow> error + monitor" where
  "initMonitor termWidth counts netIOCounters netNow diskIOCounters diskNow =
     (case createCPUGauges counts of
        Inl e \<Rightarrow> Inl e
      | Inr gauges \<Rightarrow>
          (case baselineNetIOStats netIOCounters of
             Inl e \<Rightarrow> Inl e
           | Inr prevNet \<Rightarrow>
               Inr \<lparr>cpuGauges = gauges,
                    netData = \<lparr>RxData = make_float64 (dataPointCount termWidth),
                               TxData = make_float64 (dataPointCount termWidth),
                               MaxValue = 0.1\<rparr>,
                    netText = [],
                    prevNetIOStats = prevNet,
                    lastNetworkUpdate = netNow,
                    diskData = \<lparr>ReadData = make_float64 (dataPointCount termWidth),
                                WriteData = make_float64 (dataPointCount termWidth),
                                DiskMaxValue = 0.1\<rparr>,
                    diskText = [],
                    prevDiskIOStats = baselineDiskIOStats diskIOCounters,
                    lastDiskUpdate = diskNow\<rparr>))"

subsection \<open>The network and disk parts of a timer tick\<close>

text \<open>
  \<^verbatim>\<open>
  if netIOCounters, err := net.IOCounters(false); err == nil {
      duration := now.Sub(lastNetworkUpdate).Seconds()
      rxBytesPerSec := float64(netIOCounters[0].BytesRecv-prevNetIOStats.BytesRecv) / duration
      txBytesPerSec := float64(netIOCounters[0].BytesSent-prevNetIOStats.BytesSent) / duration
      rxMbps := rxBytesPerSec * 8 / 1000000
      txMbps := txBytesPerSec * 8 / 1000000
      newText := fmt.Sprintf(..., rxMbps, txMbps, formatBytes(...), formatBytes(...))
      if newText != netStats.Text { netStats.Text = newText; ui.Render(netStats) }
      updateNetworkGraph(&netData, rxMbps, txMbps, netGraph)
      prevNetIOStats = netIOCounters[0]
      lastNetworkUpdate = now
  }
  \<close>
  Times are seconds. A rate that is not finite leaves the real-valued model: the
  part then ends in \<open>Inl NonFiniteFloat\<close>, which is not a panic of the program.
\<close>

definition tickNetwork ::
  "(float64 \<Rightarrow> float64 \<Rightarrow> 64 word \<Rightarrow> 64 word \<Rightarrow> string) \<Rightarrow> real \<Rightarrow>
   IOCountersStat list provided \<Rightarrow> monitor \<Rightarrow> error + monitor" where
  "tickNetwork sprintf now netIOCounters st =
     (case snd netIOCounters of
        Some err \<Rightarrow> Inr st
      | None \<Rightarrow>
          (case fst netIOCounters of
             [] \<Rightarrow> Inl IndexOutOfRange
           | c # _ \<Rightarrow>
               (let duration = now - lastNetworkUpdate st in
                case (bytesPerSec (BytesRecv c) (BytesRecv (prevNetIOStats st)) duration,
                      bytesPerSec (BytesSent c) (BytesSent (prevNetIOStats st)) duration) of
                  (Quot rxBytesPerSec, Quot txBytesPerSec) \<Rightarrow>
                    (let rxMbps = rxBytesPerSec * 8 / 1000000;
                         txMbps = txBytesPerSec * 8 / 1000000
                     in case updateNetworkGraph (netData st) rxMbps txMbps of
                          Inl e \<Rightarrow> Inl e
                        | Inr netData' \<Rightarrow>
                            Inr (st\<lparr>netText := sprintf rxMbps txMbps (BytesRecv c) (BytesSent c),
                                     netData := netData',
                                     prevNetIOStats := c,
                                     lastNetworkUpdate := now\<rparr>))
                | _ \<Rightarrow> Inl NonFiniteFloat)))"

text \<open>
  \<^verbatim>\<open>
  for name, stat := range diskIOCounters {
      if prev, ok := prevDiskIOStats[name]; ok {
          readBytesPerSec := float64(stat.ReadBytes-prev.ReadBytes) / duration / 1024 / 1024
          writeBytesPerSec := float64(stat.WriteBytes-prev.WriteBytes) / duration / 1024 / 1024
          totalReadMBps += readBytesPerSec
          totalWriteMBps += writeBytesPerSec
          if len(diskText) > 0 { diskText += "\n" }
          diskText += fmt.Sprintf(..., name, readBytesPerSec, writeBytesPerSec)
      }
      prevDiskIOStats[name] = stat
  }
  \<close>
\<close>

fun diskLoop ::
  "(string \<Rightarrow> float64 \<Rightarrow> float64 \<Rightarrow> string) \<Rightarrow> float64 \<Rightarrow>
   (string \<times> DiskIOCountersStat) list \<Rightarrow>
   float64 \<times> float64 \<times> string \<times> (string \<rightharpoonup> DiskIOCountersStat) \<Rightarrow>
   error + (float64 \<times> float64 \<times> string \<times> (string \<rightharpoonup> DiskIOCountersStat))" where
  "diskLoop sprintf duration [] acc = Inr acc"
| "diskLoop sprintf duration ((name, stat) # rest) (totalReadMBps, totalWriteMBps, dtext, prevStats) =
     (case prevStats name of
        Some prev \<Rightarrow>
          (case (bytesPerSec (ReadBytes stat) (ReadBytes prev) duration,
                 bytesPerSec (WriteBytes stat) (WriteBytes prev) duration) of
             (Quot r, Quot w) \<Rightarrow>
               (let readBytesPerSec = r / 1024 / 1024;
                    writeBytesPerSec = w / 1024 / 1024
                in diskLoop sprintf duration rest
                     (totalReadMBps + readBytesPerSec,
                      totalWriteMBps + writeBytesPerSec,
                      (if length dtext > 0 then dtext @ [CHR 0x0A] else dtext)
                        @ sprintf name readBytesPerSec writeBytesPerSec,
                      prevStats(name \<mapsto> stat)))
           | _ \<Rightarrow> Inl NonFiniteFloat)
      | None \<Rightarrow>
          diskLoop sprintf duration rest
            (totalReadMBps, totalWriteMBps, dtext, prevStats(name \<mapsto> stat)))"

text \<open>
  \<^verbatim>\<open>
  if diskIOCounters, err := disk.IOCounters(); err == nil {
      duration := now.Sub(lastDiskUpdate).Seconds()
      diskText := ""
      var totalReadMBps, totalWriteMBps float64
      for ... { ... }
      if diskText != diskStats.Text { diskStats.Text = diskText; ui.Render(diskStats) }
      updateDiskGraph(&diskData, totalReadMBps, totalWriteMBps, diskGraph)
      lastDiskUpdate = now
  }
  \<close>
\<close>

definition tickDisk ::
  "(string \<Rightarrow> float64 \<Rightarrow> float64 \<Rightarrow> string) \<Rightarrow> real \<Rightarrow>
   (string \<times> DiskIOCountersStat) list provided \<Rightarrow> monitor \<Rightarrow> error + monitor" where
  "tickDisk sprintf now diskIOCounters st =
     (case snd diskIOCounters of
        Some err \<Rightarrow> Inr st
      | None \<Rightarrow>
          (case diskLoop sprintf (now - lastDiskUpdate st) (fst diskIOCounters)
                  (0, 0, [], prevDiskIOStats st) of
             Inl e \<Rightarrow> Inl e
           | Inr (totalReadMBps, totalWriteMBps, diskText', prevStats) \<Rightarrow>
               (case updateDiskGraph (diskData st) totalReadMBps totalWriteMBps of
                  Inl e \<Rightarrow> Inl e
                | Inr diskData' \<Rightarrow>
                    Inr (st\<lparr>diskText := diskText',
                             diskData := diskData',
                             prevDiskIOStats := prevStats,
                             lastDiskUpdate := now\<rparr>))))"

subsection \<open>The resize event\<close>

text \<open>
  \<^verbatim>\<open>
  case "<Resize>":
      payload := e.Payload.(ui.Resize)
      termWidth, termHeight = payload.Width, payload.Height
      ...
      cpuTitle, cpuGauges, cpuHeight = createCPUGauges(termWidth)
      ...
      dataPointCount := termWidth
      if dataPointCount < 100 { dataPointCount = 100 }
      if dataPointCount > len(netData.RxData) { ... }
      if dataPointCount > len(diskData.ReadData) { ... }
  \<close>
  The remaining statements of the handler set widget rectangles and redraw.
\<close>

definition handleResize :: "int provided \<Rightarrow> int \<Rightarrow> monitor \<Rightarrow> error + monitor" where
  "handleResize counts termWidth st =
     (case createCPUGauges counts of
        Inl e \<Rightarrow> Inl e
      | Inr gauges \<Rightarrow>
          (case growNetworkData (dataPointCount termWidth) (netData st) of
             Inl e \<Rightarrow> Inl e
           | Inr netData' \<Rightarrow>
               (case growDiskData (dataPointCount termWidth) (diskData st) of
                  Inl e \<Rightarrow> Inl e
                | Inr diskData' \<Rightarrow>
                    Inr (st\<lparr>cpuGauges := gauges, netData := netData', diskData := diskData'\<rparr>))))"

subsection \<open>Ranking the processes\<close>





section \<open>Properties\<close>

subsection \<open>Truncation of the command column\<close>

lemma sint_sub3: "-(2^63) + 3 \<le> sint (w::64 word) \<Longrightarrow> sint (w - 3) = sint w - 3"
  using sint_lt[of w] by (simp add: sint_word_ariths signed_take_bit_int_eq_self_iff) 

lemma sint_sub3_wrap:
  assumes "sint (w::64 word) < -(2^63) + 3"
  shows "sint (w - 3) = sint w - 3 + 2^64"
proof -
  have "sint (w - 3) = signed_take_bit 63 (sint w - 3)"
    by (simp add: sint_word_ariths)
  also have "\<dots> = signed_take_bit 63 (sint w - 3 + 2^64)"
  proof -
    have "take_bit (Suc 63) (sint w - 3) = take_bit (Suc 63) (sint w - 3 + 2 ^ Suc 63)"
      by (simp only: take_bit_eq_mod mod_add_self2)
    then show ?thesis
      by (simp only: signed_take_bit_eq_iff_take_bit_eq) simp
  qed
  also have "\<dots> = sint w - 3 + 2^64"
    using assms sint_ge[of w] by (simp add: signed_take_bit_int_eq_self_iff)
  finally show ?thesis .
qed

lemma formatCommand_long:
  "sint w < int (length cmd) \<Longrightarrow> 3 \<le> sint w \<Longrightarrow>
   formatCommand cmd w = Inr (take (nat (sint w) - 3) cmd @ ''...'')"
  by (simp add: formatCommand_def sint_sub3 Let_def nat_diff_distrib')

lemma formatCommand_long_length:
  "sint w < int (length cmd) \<Longrightarrow> 3 \<le> sint w \<Longrightarrow>
   length (take (nat (sint w) - 3) cmd @ ''...'') = nat (sint w)"
  by simp

lemma formatCommand_panic:
  assumes "int (length cmd) < 2^63 - 3" "sint w < int (length cmd)" "sint w < 3"
  shows "formatCommand cmd w = Inl SliceBoundsOutOfRange"
proof (cases "-(2^63) + 3 \<le> sint w")
  case True
  then show ?thesis using assms by (simp add: formatCommand_def sint_sub3)
next
  case False
  then have "sint (w - 3) = sint w - 3 + 2^64" by (simp add: sint_sub3_wrap)
  then have "int (length cmd) < sint (w - 3)" using assms sint_ge[of w] by simp
  then show ?thesis using assms by (simp add: formatCommand_def)
qed

lemma formatCommand_short: "int (length cmd) \<le> sint w \<Longrightarrow> formatCommand cmd w = Inr cmd"
  by (simp add: formatCommand_def)

text \<open>
  Claim C9. For a command longer than the column width \<open>w\<close>: when \<open>w \<ge> 3\<close> the
  result is the first \<open>w - 3\<close> characters followed by \<open>...\<close>, of length exactly \<open>w\<close>;
  when \<open>w < 3\<close> the slice \<open>cmd[:w-3]\<close> is out of range and the call panics. A command
  no longer than \<open>w\<close> is returned unchanged. (A Go string is shorter than
  \<open>2^63 - 3\<close> bytes.)
\<close>

theorem formatCommand_truncation:
  assumes "int (length cmd) < 2^63 - 3"
  shows "(sint w < int (length cmd) \<and> 3 \<le> sint w \<longrightarrow>
            formatCommand cmd w = Inr (take (nat (sint w) - 3) cmd @ ''...'')
          \<and> length (take (nat (sint w) - 3) cmd @ ''...'') = nat (sint w))
       \<and> (sint w < int (length cmd) \<and> sint w < 3 \<longrightarrow>
            formatCommand cmd w = Inl SliceBoundsOutOfRange)
       \<and> (int (length cmd) \<le> sint w \<longrightarrow> formatCommand cmd w = Inr cmd)"
  using assms formatCommand_long formatCommand_long_length formatCommand_panic formatCommand_short
  by blast

theorem formatCommand_truncation_witness:
  "formatCommand ''/usr/bin/python3'' 10 = Inr ''/usr/bi...''
   \<and> formatCommand ''/usr/bin/python3'' 2 = Inl SliceBoundsOutOfRange
   \<and> formatCommand ''/usr/bin/python3'' (-5) = Inl SliceBoundsOutOfRange
   \<and> formatCommand ''top'' 10 = Inr ''top''"
  using formatCommand_truncation [of "''/usr/bin/python3''" 10]
        formatCommand_truncation [of "''/usr/bin/python3''" 2]
        formatCommand_truncation [of "''/usr/bin/python3''" "-5"]
        formatCommand_truncation [of "''top''" 10]
  by simp


subsection \<open>Appending to a history buffer\<close>

lemma shiftLoop_closed:
  "i < length xs \<Longrightarrow> length ys = length xs \<Longrightarrow>
   shiftLoop i xs ys =
     Inr (take i xs @ drop (Suc i) xs @ [last xs], take i ys @ drop (Suc i) ys @ [last ys])"
proof (induction i xs ys rule: shiftLoop.induct)
  case (1 i xs ys)
  show ?case
  proof (cases "Suc i < length xs")
    case True
    let ?xs = "xs[i := xs ! (i + 1)]" and ?ys = "ys[i := ys ! (i + 1)]"
    have step: "shiftLoop i xs ys = shiftLoop (i + 1) ?xs ?ys"
      using True "1.prems" by (subst shiftLoop.simps) simp
    have ih: "shiftLoop (i + 1) ?xs ?ys =
      Inr (take (i + 1) ?xs @ drop (Suc (i + 1)) ?xs @ [last ?xs],
           take (i + 1) ?ys @ drop (Suc (i + 1)) ?ys @ [last ?ys])"
      using True "1.prems" by (intro "1.IH") simp_all
    have a: "take (i + 1) (zs[i := zs ! (i + 1)]) @ drop (Suc (i + 1)) (zs[i := zs ! (i + 1)])
              @ [last (zs[i := zs ! (i + 1)])]
            = take i zs @ drop (Suc i) zs @ [last zs]" if "Suc i < length zs" for zs :: "real list"
    proof -
      have "take (i + 1) (zs[i := zs ! (i + 1)]) = take i zs @ [zs ! (i + 1)]"
        using that by (simp add: take_Suc_conv_app_nth)
      moreover have "drop (Suc (i + 1)) (zs[i := zs ! (i + 1)]) = drop (Suc (Suc i)) zs"
        by simp
      moreover have "last (zs[i := zs ! (i + 1)]) = last zs"
        using that by (cases "zs = []") (auto simp add: last_list_update)
      moreover have "drop (Suc i) zs = zs ! (i + 1) # drop (Suc (Suc i)) zs"
        using that by (simp add: Cons_nth_drop_Suc)
      ultimately show ?thesis by simp
    qed
    show ?thesis
      unfolding step ih using a[of xs] a[of ys] True "1.prems" by simp
  next
    case False
    with "1.prems" have i: "i = length xs - 1" and ne: "xs \<noteq> []" "ys \<noteq> []" by auto
    have "shiftLoop i xs ys = Inr (xs, ys)"
      using False by (subst shiftLoop.simps) simp
    moreover have "take i zs @ drop (Suc i) zs @ [last zs] = zs"
      if "zs \<noteq> []" "length zs = length xs" for zs :: "real list"
      using that i by (metis append_butlast_last_id butlast_conv_take drop_all append_Nil Suc_diff_1 length_greater_0_conv le_refl)
    ultimately show ?thesis using ne "1.prems" by simp
  qed
qed

lemma shiftNetworkData_eq:
  assumes "RxData nd \<noteq> []" "length (TxData nd) = length (RxData nd)"
  shows "shiftNetworkData nd =
    Inr (nd\<lparr>RxData := tl (RxData nd) @ [last (RxData nd)],
             TxData := tl (TxData nd) @ [last (TxData nd)]\<rparr>)"
  using assms shiftLoop_closed [of 0 "RxData nd" "TxData nd"]
  by (simp add: shiftNetworkData_def drop_Suc)

lemma shiftDiskData_eq:
  assumes "ReadData dd \<noteq> []" "length (WriteData dd) = length (ReadData dd)"
  shows "shiftDiskData dd =
    Inr (dd\<lparr>ReadData := tl (ReadData dd) @ [last (ReadData dd)],
             WriteData := tl (WriteData dd) @ [last (WriteData dd)]\<rparr>)"
  using assms shiftLoop_closed [of 0 "ReadData dd" "WriteData dd"]
  by (simp add: shiftDiskData_def drop_Suc)

lemma set_last_slot:
  "xs \<noteq> [] \<Longrightarrow> n = length xs - Suc 0 \<Longrightarrow> (tl xs @ [x])[n := v] = tl xs @ [v]"
  by (cases xs) (simp_all add: list_update_append)

lemma updateNetworkGraph_buffers:
  assumes "RxData nd \<noteq> []" "length (TxData nd) = length (RxData nd)"
  shows "\<exists>nd'. updateNetworkGraph nd rx tx = Inr nd'
           \<and> RxData nd' = tl (RxData nd) @ [rx] \<and> TxData nd' = tl (TxData nd) @ [tx]"
proof -
  from assms have ne: "TxData nd \<noteq> []" by auto
  show ?thesis
    using assms ne
    by (simp add: updateNetworkGraph_def shiftNetworkData_eq addNetworkData_def
        updateNetworkMaxValue_def Let_def set_last_slot)
qed

lemma updateDiskGraph_buffers:
  assumes "ReadData dd \<noteq> []" "length (WriteData dd) = length (ReadData dd)"
  shows "\<exists>dd'. updateDiskGraph dd r w = Inr dd'
           \<and> ReadData dd' = tl (ReadData dd) @ [r] \<and> WriteData dd' = tl (WriteData dd) @ [w]"
proof -
  from assms have ne: "WriteData dd \<noteq> []" by auto
  show ?thesis
    using assms ne
    by (simp add: updateDiskGraph_def shiftDiskData_eq addDiskData_def
        updateDiskMaxValue_def Let_def set_last_slot)
qed

lemma drop_tl_snoc: "n < length xs \<Longrightarrow> drop n (tl xs @ [v]) = drop (Suc n) xs @ [v]"
  by (cases xs) simp_all

lemma updateNetworkGraph_seq_buffers:
  "length vs \<le> length (RxData nd) \<Longrightarrow> length (TxData nd) = length (RxData nd) \<Longrightarrow>
   \<exists>nd'. updateNetworkGraph_seq nd vs = Inr nd'
     \<and> RxData nd' = drop (length vs) (RxData nd) @ map fst vs
     \<and> TxData nd' = drop (length vs) (TxData nd) @ map snd vs"
proof (induction vs arbitrary: nd)
  case Nil
  then show ?case by simp
next
  case (Cons v vs)
  obtain rx tx where v: "v = (rx, tx)" by (cases v)
  from Cons.prems have ne: "RxData nd \<noteq> []" by auto
  from updateNetworkGraph_buffers [OF ne Cons.prems(2), of rx tx]
  obtain nd1 where nd1: "updateNetworkGraph nd rx tx = Inr nd1"
    "RxData nd1 = tl (RxData nd) @ [rx]" "TxData nd1 = tl (TxData nd) @ [tx]" by blast
  have len: "length vs \<le> length (RxData nd1)" "length (TxData nd1) = length (RxData nd1)"
    using Cons.prems nd1 by simp_all
  from Cons.IH [OF len] obtain nd' where nd': "updateNetworkGraph_seq nd1 vs = Inr nd'"
    "RxData nd' = drop (length vs) (RxData nd1) @ map fst vs"
    "TxData nd' = drop (length vs) (TxData nd1) @ map snd vs" by blast
  have "length vs < length (RxData nd)" "length vs < length (TxData nd)"
    using Cons.prems by simp_all
  then show ?case
    using nd1 nd' by (simp add: v drop_Suc)
qed

lemma updateDiskGraph_seq_buffers:
  "length vs \<le> length (ReadData dd) \<Longrightarrow> length (WriteData dd) = length (ReadData dd) \<Longrightarrow>
   \<exists>dd'. updateDiskGraph_seq dd vs = Inr dd'
     \<and> ReadData dd' = drop (length vs) (ReadData dd) @ map fst vs
     \<and> WriteData dd' = drop (length vs) (WriteData dd) @ map snd vs"
proof (induction vs arbitrary: dd)
  case Nil
  then show ?case by simp
next
  case (Cons v vs)
  obtain r w where v: "v = (r, w)" by (cases v)
  from Cons.prems have ne: "ReadData dd \<noteq> []" by auto
  from updateDiskGraph_buffers [OF ne Cons.prems(2), of r w]
  obtain dd1 where dd1: "updateDiskGraph dd r w = Inr dd1"
    "ReadData dd1 = tl (ReadData dd) @ [r]" "WriteData dd1 = tl (WriteData dd) @ [w]" by blast
  have len: "length vs \<le> length (ReadData dd1)" "length (WriteData dd1) = length (ReadData dd1)"
    using Cons.prems dd1 by simp_all
  from Cons.IH [OF len] obtain dd' where dd': "updateDiskGraph_seq dd1 vs = Inr dd'"
    "ReadData dd' = drop (length vs) (ReadData dd1) @ map fst vs"
    "WriteData dd' = drop (length vs) (WriteData dd1) @ map snd vs" by blast
  have "length vs < length (ReadData dd)" "length vs < length (WriteData dd)"
    using Cons.prems by simp_all
  then show ?case
    using dd1 dd' by (simp add: v drop_Suc)
qed

text \<open>
  Claim C5. A buffer of capacity \<open>C\<close> that holds zeros, after \<open>N \<le> C\<close> appends of
  \<open>v\<^sub>1 \<dots> v\<^sub>N\<close>, holds \<open>C - N\<close> zeros followed by \<open>v\<^sub>1 \<dots> v\<^sub>N\<close> in order. One append
  to a non-empty buffer drops the oldest entry, moves every other entry one slot
  towards the head in the same order and writes the new value into the last slot.
  This holds for the four buffers (received, transmitted, read, written).
\<close>

theorem history_append:
  "(length vs \<le> C \<longrightarrow>
      (\<exists>nd'. updateNetworkGraph_seq \<lparr>RxData = replicate C 0, TxData = replicate C 0, MaxValue = m\<rparr> vs = Inr nd'
         \<and> RxData nd' = replicate (C - length vs) 0 @ map fst vs
         \<and> TxData nd' = replicate (C - length vs) 0 @ map snd vs)
    \<and> (\<exists>dd'. updateDiskGraph_seq \<lparr>ReadData = replicate C 0, WriteData = replicate C 0, DiskMaxValue = m\<rparr> vs = Inr dd'
         \<and> ReadData dd' = replicate (C - length vs) 0 @ map fst vs
         \<and> WriteData dd' = replicate (C - length vs) 0 @ map snd vs))
   \<and> (RxData nd \<noteq> [] \<and> length (TxData nd) = length (RxData nd) \<longrightarrow>
      (\<exists>nd'. updateNetworkGraph nd rx tx = Inr nd'
         \<and> RxData nd' = tl (RxData nd) @ [rx] \<and> TxData nd' = tl (TxData nd) @ [tx]
         \<and> RxData nd' ! (length (RxData nd') - 1) = rx
         \<and> TxData nd' ! (length (TxData nd') - 1) = tx))
   \<and> (ReadData dd \<noteq> [] \<and> length (WriteData dd) = length (ReadData dd) \<longrightarrow>
      (\<exists>dd'. updateDiskGraph dd r w = Inr dd'
         \<and> ReadData dd' = tl (ReadData dd) @ [r] \<and> WriteData dd' = tl (WriteData dd) @ [w]
         \<and> ReadData dd' ! (length (ReadData dd') - 1) = r
         \<and> WriteData dd' ! (length (WriteData dd') - 1) = w))"
proof (intro conjI impI)
  assume len: "length vs \<le> C"
  let ?nd = "\<lparr>RxData = replicate C 0, TxData = replicate C 0, MaxValue = m\<rparr>"
  show "\<exists>nd'. updateNetworkGraph_seq ?nd vs = Inr nd'
         \<and> RxData nd' = replicate (C - length vs) 0 @ map fst vs
         \<and> TxData nd' = replicate (C - length vs) 0 @ map snd vs"
    using updateNetworkGraph_seq_buffers [of vs ?nd] len by simp
  let ?dd = "\<lparr>ReadData = replicate C 0, WriteData = replicate C 0, DiskMaxValue = m\<rparr>"
  show "\<exists>dd'. updateDiskGraph_seq ?dd vs = Inr dd'
         \<and> ReadData dd' = replicate (C - length vs) 0 @ map fst vs
         \<and> WriteData dd' = replicate (C - length vs) 0 @ map snd vs"
    using updateDiskGraph_seq_buffers [of vs ?dd] len by simp
next
  assume a: "RxData nd \<noteq> [] \<and> length (TxData nd) = length (RxData nd)"
  then obtain nd' where "updateNetworkGraph nd rx tx = Inr nd'"
     "RxData nd' = tl (RxData nd) @ [rx]" "TxData nd' = tl (TxData nd) @ [tx]"
    using updateNetworkGraph_buffers [of nd rx tx] by blast
  then show "\<exists>nd'. updateNetworkGraph nd rx tx = Inr nd'
         \<and> RxData nd' = tl (RxData nd) @ [rx] \<and> TxData nd' = tl (TxData nd) @ [tx]
         \<and> RxData nd' ! (length (RxData nd') - 1) = rx
         \<and> TxData nd' ! (length (TxData nd') - 1) = tx"
    by (simp add: nth_append)
next
  assume a: "ReadData dd \<noteq> [] \<and> length (WriteData dd) = length (ReadData dd)"
  then obtain dd' where "updateDiskGraph dd r w = Inr dd'"
     "ReadData dd' = tl (ReadData dd) @ [r]" "WriteData dd' = tl (WriteData dd) @ [w]"
    using updateDiskGraph_buffers [of dd r w] by blast
  then show "\<exists>dd'. updateDiskGraph dd r w = Inr dd'
         \<and> ReadData dd' = tl (ReadData dd) @ [r] \<and> WriteData dd' = tl (WriteData dd) @ [w]
         \<and> ReadData dd' ! (length (ReadData dd') - 1) = r
         \<and> WriteData dd' ! (length (WriteData dd') - 1) = w"
    by (simp add: nth_append)
qed


theorem history_append_witness:
  "(\<exists>nd'. updateNetworkGraph_seq \<lparr>RxData = replicate 3 0, TxData = replicate 3 0, MaxValue = 0.1\<rparr>
            [(1, 2), (3, 4)] = Inr nd'
      \<and> RxData nd' = [0, 1, 3] \<and> TxData nd' = [0, 2, 4])
   \<and> (\<exists>dd'. updateDiskGraph_seq \<lparr>ReadData = replicate 3 0, WriteData = replicate 3 0, DiskMaxValue = 0.1\<rparr>
            [(1, 2), (3, 4)] = Inr dd'
      \<and> ReadData dd' = [0, 1, 3] \<and> WriteData dd' = [0, 2, 4])
   \<and> (\<exists>nd'. updateNetworkGraph \<lparr>RxData = [7, 8, 9], TxData = [1, 2, 3], MaxValue = 1\<rparr> 5 6 = Inr nd'
      \<and> RxData nd' = [8, 9, 5] \<and> TxData nd' = [2, 3, 6])
   \<and> (\<exists>dd'. updateDiskGraph \<lparr>ReadData = [7, 8, 9], WriteData = [1, 2, 3], DiskMaxValue = 1\<rparr> 5 6 = Inr dd'
      \<and> ReadData dd' = [8, 9, 5] \<and> WriteData dd' = [2, 3, 6])"
  using history_append [of "[(1, 2), (3, 4)]" 3 "0.1"
          "\<lparr>RxData = [7, 8, 9], TxData = [1, 2, 3], MaxValue = 1\<rparr>" 5 6
          "\<lparr>ReadData = [7, 8, 9], WriteData = [1, 2, 3], DiskMaxValue = 1\<rparr>" 5 6]
  by (simp add: numeral_3_eq_3) blast

subsection \<open>Growing a history buffer\<close>

lemma copy_from_grow:
  assumes "int (length xs) < n"
  shows "copy_from (make_float64 n) (n - int (length xs)) xs
           = Inr (replicate (nat n - length xs) 0 @ xs)"
proof -
  have n: "nat (n - int (length xs)) = nat n - length xs" "length xs \<le> nat n"
    using assms by linarith+
  have "drop (nat n - length xs) (replicate (nat n) (0::real)) = replicate (length xs) 0"
    using n by simp
  then show ?thesis
    using assms n by (simp add: copy_from_def make_float64_def copy_go_def min_def)
qed

lemma growNetworkData_grows:
  assumes "length (TxData nd) = length (RxData nd)" "int (length (RxData nd)) < n"
  shows "growNetworkData n nd =
    Inr (nd\<lparr>RxData := replicate (nat n - length (RxData nd)) 0 @ RxData nd,
             TxData := replicate (nat n - length (RxData nd)) 0 @ TxData nd\<rparr>)"
  using assms copy_from_grow [of "RxData nd" n] copy_from_grow [of "TxData nd" n]
  by (simp add: growNetworkData_def)

lemma growDiskData_grows:
  assumes "length (WriteData dd) = length (ReadData dd)" "int (length (ReadData dd)) < n"
  shows "growDiskData n dd =
    Inr (dd\<lparr>ReadData := replicate (nat n - length (ReadData dd)) 0 @ ReadData dd,
             WriteData := replicate (nat n - length (ReadData dd)) 0 @ WriteData dd\<rparr>)"
  using assms copy_from_grow [of "ReadData dd" n] copy_from_grow [of "WriteData dd" n]
  by (simp add: growDiskData_def)

lemma growNetworkData_keeps: "n \<le> int (length (RxData nd)) \<Longrightarrow> growNetworkData n nd = Inr nd"
  by (simp add: growNetworkData_def)

lemma growDiskData_keeps: "n \<le> int (length (ReadData dd)) \<Longrightarrow> growDiskData n dd = Inr dd"
  by (simp add: growDiskData_def)

text \<open>
  Claim C4. Growing a buffer of capacity \<open>C\<close> to \<open>n > C\<close> gives a buffer of length
  \<open>n\<close> whose last \<open>C\<close> entries are the old contents in order and whose first
  \<open>n - C\<close> entries are \<open>0\<close>; the scale is kept. When \<open>n\<close> is not greater than the
  current length the buffers are unchanged. A buffer of 100 entries \<open>5.0\<close>, on a
  resize to width 200, becomes 100 zeros followed by 100 entries \<open>5.0\<close>.
\<close>

theorem history_grow:
  "(length (TxData nd) = length (RxData nd) \<and> int (length (RxData nd)) < n \<longrightarrow>
      (\<exists>nd'. growNetworkData n nd = Inr nd'
         \<and> int (length (RxData nd')) = n \<and> int (length (TxData nd')) = n
         \<and> drop (nat n - length (RxData nd)) (RxData nd') = RxData nd
         \<and> drop (nat n - length (TxData nd)) (TxData nd') = TxData nd
         \<and> take (nat n - length (RxData nd)) (RxData nd') = replicate (nat n - length (RxData nd)) 0
         \<and> take (nat n - length (TxData nd)) (TxData nd') = replicate (nat n - length (TxData nd)) 0
         \<and> MaxValue nd' = MaxValue nd))
   \<and> (length (WriteData dd) = length (ReadData dd) \<and> int (length (ReadData dd)) < n \<longrightarrow>
      (\<exists>dd'. growDiskData n dd = Inr dd'
         \<and> int (length (ReadData dd')) = n \<and> int (length (WriteData dd')) = n
         \<and> drop (nat n - length (ReadData dd)) (ReadData dd') = ReadData dd
         \<and> drop (nat n - length (WriteData dd)) (WriteData dd') = WriteData dd
         \<and> take (nat n - length (ReadData dd)) (ReadData dd') = replicate (nat n - length (ReadData dd)) 0
         \<and> take (nat n - length (WriteData dd)) (WriteData dd') = replicate (nat n - length (WriteData dd)) 0
         \<and> DiskMaxValue dd' = DiskMaxValue dd))
   \<and> (n \<le> int (length (RxData nd)) \<longrightarrow> growNetworkData n nd = Inr nd)
   \<and> (n \<le> int (length (ReadData dd)) \<longrightarrow> growDiskData n dd = Inr dd)
   \<and> growNetworkData (dataPointCount 200)
         \<lparr>RxData = replicate 100 5, TxData = replicate 100 5, MaxValue = m\<rparr>
       = Inr \<lparr>RxData = replicate 100 0 @ replicate 100 5,
              TxData = replicate 100 0 @ replicate 100 5, MaxValue = m\<rparr>"
proof (intro conjI impI)
  assume a: "length (TxData nd) = length (RxData nd) \<and> int (length (RxData nd)) < n"
  then have "nat n - length (RxData nd) + length (RxData nd) = nat n" by linarith
  then show "\<exists>nd'. growNetworkData n nd = Inr nd'
         \<and> int (length (RxData nd')) = n \<and> int (length (TxData nd')) = n
         \<and> drop (nat n - length (RxData nd)) (RxData nd') = RxData nd
         \<and> drop (nat n - length (TxData nd)) (TxData nd') = TxData nd
         \<and> take (nat n - length (RxData nd)) (RxData nd') = replicate (nat n - length (RxData nd)) 0
         \<and> take (nat n - length (TxData nd)) (TxData nd') = replicate (nat n - length (TxData nd)) 0
         \<and> MaxValue nd' = MaxValue nd"
    using a by (simp add: growNetworkData_grows)
next
  assume a: "length (WriteData dd) = length (ReadData dd) \<and> int (length (ReadData dd)) < n"
  then have "nat n - length (ReadData dd) + length (ReadData dd) = nat n" by linarith
  then show "\<exists>dd'. growDiskData n dd = Inr dd'
         \<and> int (length (ReadData dd')) = n \<and> int (length (WriteData dd')) = n
         \<and> drop (nat n - length (ReadData dd)) (ReadData dd') = ReadData dd
         \<and> drop (nat n - length (WriteData dd)) (WriteData dd') = WriteData dd
         \<and> take (nat n - length (ReadData dd)) (ReadData dd') = replicate (nat n - length (ReadData dd)) 0
         \<and> take (nat n - length (WriteData dd)) (WriteData dd') = replicate (nat n - length (WriteData dd)) 0
         \<and> DiskMaxValue dd' = DiskMaxValue dd"
    using a by (simp add: growDiskData_grows)
next
  show "growNetworkData (dataPointCount 200)
         \<lparr>RxData = replicate 100 5, TxData = replicate 100 5, MaxValue = m\<rparr>
       = Inr \<lparr>RxData = replicate 100 0 @ replicate 100 5,
              TxData = replicate 100 0 @ replicate 100 5, MaxValue = m\<rparr>"
    by (simp add: growNetworkData_grows dataPointCount_def)
qed (simp_all add: growNetworkData_keeps growDiskData_keeps)

theorem history_grow_witness:
  "(\<exists>nd'. growNetworkData 5 \<lparr>RxData = [1, 2, 3], TxData = [4, 5, 6], MaxValue = 1\<rparr> = Inr nd'
      \<and> length (RxData nd') = 5 \<and> length (TxData nd') = 5
      \<and> drop 2 (RxData nd') = [1, 2, 3] \<and> drop 2 (TxData nd') = [4, 5, 6]
      \<and> take 2 (RxData nd') = [0, 0] \<and> take 2 (TxData nd') = [0, 0])
   \<and> (\<exists>dd'. growDiskData 5 \<lparr>ReadData = [1, 2, 3], WriteData = [4, 5, 6], DiskMaxValue = 1\<rparr> = Inr dd'
      \<and> length (ReadData dd') = 5 \<and> length (WriteData dd') = 5
      \<and> drop 2 (ReadData dd') = [1, 2, 3] \<and> drop 2 (WriteData dd') = [4, 5, 6]
      \<and> take 2 (ReadData dd') = [0, 0] \<and> take 2 (WriteData dd') = [0, 0])
   \<and> growNetworkData 2 \<lparr>RxData = [1, 2, 3], TxData = [4, 5, 6], MaxValue = 1\<rparr>
        = Inr \<lparr>RxData = [1, 2, 3], TxData = [4, 5, 6], MaxValue = 1\<rparr>
   \<and> growDiskData 2 \<lparr>ReadData = [1, 2, 3], WriteData = [4, 5, 6], DiskMaxValue = 1\<rparr>
        = Inr \<lparr>ReadData = [1, 2, 3], WriteData = [4, 5, 6], DiskMaxValue = 1\<rparr>"
  using history_grow [of "\<lparr>RxData = [1, 2, 3], TxData = [4, 5, 6], MaxValue = 1\<rparr>" 5
          "\<lparr>ReadData = [1, 2, 3], WriteData = [4, 5, 6], DiskMaxValue = 1\<rparr>"]
        history_grow [of "\<lparr>RxData = [1, 2, 3], TxData = [4, 5, 6], MaxValue = 1\<rparr>" 2
          "\<lparr>ReadData = [1, 2, 3], WriteData = [4, 5, 6], DiskMaxValue = 1\<rparr>"]
  by (simp add: numeral_2_eq_2) blast


subsection \<open>The adaptive scale\<close>

lemma updateNetworkMaxValue_floor: "0.1 \<le> MaxValue (updateNetworkMaxValue nd)"
  by (simp add: updateNetworkMaxValue_def Let_def)

lemma updateDiskMaxValue_floor: "0.1 \<le> DiskMaxValue (updateDiskMaxValue dd)"
  by (simp add: updateDiskMaxValue_def Let_def)

lemma updateNetworkMaxValue_upward:
  assumes "max_f (maxInSlice (RxData nd)) (maxInSlice (TxData nd)) > MaxValue nd"
  shows "MaxValue nd \<le> MaxValue (updateNetworkMaxValue nd)"
proof -
  let ?c = "max_f (maxInSlice (RxData nd)) (maxInSlice (TxData nd))"
  define x where "x = MaxValue nd + (?c - MaxValue nd) * 0.3"
  have "MaxValue nd \<le> x"
    using assms unfolding x_def by simp
  moreover have "MaxValue (updateNetworkMaxValue nd) = (if x < 0.1 then 0.1 else x)"
    using assms unfolding x_def by (simp add: updateNetworkMaxValue_def Let_def)
  ultimately show ?thesis by auto
qed

lemma updateDiskMaxValue_upward:
  assumes "max_f (maxInSlice (ReadData dd)) (maxInSlice (WriteData dd)) > DiskMaxValue dd"
  shows "DiskMaxValue dd \<le> DiskMaxValue (updateDiskMaxValue dd)"
proof -
  let ?c = "max_f (maxInSlice (ReadData dd)) (maxInSlice (WriteData dd))"
  define x where "x = DiskMaxValue dd + (?c - DiskMaxValue dd) * 0.3"
  have "DiskMaxValue dd \<le> x"
    using assms unfolding x_def by simp
  moreover have "DiskMaxValue (updateDiskMaxValue dd) = (if x < 0.1 then 0.1 else x)"
    using assms unfolding x_def by (simp add: updateDiskMaxValue_def Let_def)
  ultimately show ?thesis by auto
qed

lemma updateNetworkGraph_total:
  assumes "RxData nd \<noteq> []" "length (TxData nd) = length (RxData nd)"
  shows "\<exists>nd'. updateNetworkGraph nd rx tx = Inr nd' \<and> RxData nd' \<noteq> []
           \<and> length (TxData nd') = length (RxData nd') \<and> 0.1 \<le> MaxValue nd'"
proof -
  from assms have ne: "TxData nd \<noteq> []" by auto
  show ?thesis
    using assms ne
    by (simp add: updateNetworkGraph_def shiftNetworkData_eq addNetworkData_def
        updateNetworkMaxValue_def Let_def)
qed

lemma updateDiskGraph_total:
  assumes "ReadData dd \<noteq> []" "length (WriteData dd) = length (ReadData dd)"
  shows "\<exists>dd'. updateDiskGraph dd r w = Inr dd' \<and> ReadData dd' \<noteq> []
           \<and> length (WriteData dd') = length (ReadData dd') \<and> 0.1 \<le> DiskMaxValue dd'"
proof -
  from assms have ne: "WriteData dd \<noteq> []" by auto
  show ?thesis
    using assms ne
    by (simp add: updateDiskGraph_def shiftDiskData_eq addDiskData_def
        updateDiskMaxValue_def Let_def)
qed

lemma updateNetworkGraph_seq_floor:
  "RxData nd \<noteq> [] \<Longrightarrow> length (TxData nd) = length (RxData nd) \<Longrightarrow> 0.1 \<le> MaxValue nd \<Longrightarrow>
   \<exists>nd'. updateNetworkGraph_seq nd vs = Inr nd' \<and> 0.1 \<le> MaxValue nd'"
proof (induction vs arbitrary: nd)
  case Nil
  then show ?case by simp
next
  case (Cons v vs)
  obtain rx tx where v: "v = (rx, tx)" by (cases v)
  from updateNetworkGraph_total [OF Cons.prems(1,2), of rx tx]
  obtain nd1 where nd1: "updateNetworkGraph nd rx tx = Inr nd1" "RxData nd1 \<noteq> []"
    "length (TxData nd1) = length (RxData nd1)" "0.1 \<le> MaxValue nd1" by blast
  from Cons.IH [OF nd1(2,3,4)] show ?case
    using nd1(1) by (simp add: v)
qed

lemma updateDiskGraph_seq_floor:
  "ReadData dd \<noteq> [] \<Longrightarrow> length (WriteData dd) = length (ReadData dd) \<Longrightarrow> 0.1 \<le> DiskMaxValue dd \<Longrightarrow>
   \<exists>dd'. updateDiskGraph_seq dd vs = Inr dd' \<and> 0.1 \<le> DiskMaxValue dd'"
proof (induction vs arbitrary: dd)
  case Nil
  then show ?case by simp
next
  case (Cons v vs)
  obtain r w where v: "v = (r, w)" by (cases v)
  from updateDiskGraph_total [OF Cons.prems(1,2), of r w]
  obtain dd1 where dd1: "updateDiskGraph dd r w = Inr dd1" "ReadData dd1 \<noteq> []"
    "length (WriteData dd1) = length (ReadData dd1)" "0.1 \<le> DiskMaxValue dd1" by blast
  from Cons.IH [OF dd1(2,3,4)] show ?case
    using dd1(1) by (simp add: v)
qed

text \<open>
  Claim C6. Starting from a scale of at least \<open>0.1\<close>, every run of per-tick updates
  (on buffers of equal, positive length) completes with a scale of at least \<open>0.1\<close>;
  the scale after one update is at least \<open>0.1\<close> whatever the input; and on a tick whose
  observed peak exceeds the scale, the updated scale is not below the previous one.
  This holds for the network scale and for the disk scale.
\<close>

theorem scale_floor_and_upward:
  "(RxData nd \<noteq> [] \<and> length (TxData nd) = length (RxData nd) \<and> 0.1 \<le> MaxValue nd \<longrightarrow>
      (\<exists>nd'. updateNetworkGraph_seq nd vs = Inr nd' \<and> 0.1 \<le> MaxValue nd'))
   \<and> (ReadData dd \<noteq> [] \<and> length (WriteData dd) = length (ReadData dd) \<and> 0.1 \<le> DiskMaxValue dd \<longrightarrow>
      (\<exists>dd'. updateDiskGraph_seq dd vs = Inr dd' \<and> 0.1 \<le> DiskMaxValue dd'))
   \<and> 0.1 \<le> MaxValue (updateNetworkMaxValue nd)
   \<and> 0.1 \<le> DiskMaxValue (updateDiskMaxValue dd)
   \<and> (max_f (maxInSlice (RxData nd)) (maxInSlice (TxData nd)) > MaxValue nd \<longrightarrow>
        MaxValue nd \<le> MaxValue (updateNetworkMaxValue nd))
   \<and> (max_f (maxInSlice (ReadData dd)) (maxInSlice (WriteData dd)) > DiskMaxValue dd \<longrightarrow>
        DiskMaxValue dd \<le> DiskMaxValue (updateDiskMaxValue dd))"
  using updateNetworkGraph_seq_floor [of nd vs] updateDiskGraph_seq_floor [of dd vs]
    updateNetworkMaxValue_floor [of nd] updateDiskMaxValue_floor [of dd]
    updateNetworkMaxValue_upward [of nd] updateDiskMaxValue_upward [of dd]
  by blast

theorem scale_floor_and_upward_witness:
  "(\<exists>nd'. updateNetworkGraph_seq \<lparr>RxData = [0, 0, 0], TxData = [0, 0, 0], MaxValue = 0.1\<rparr>
            [(4, 1), (0, 0)] = Inr nd' \<and> 0.1 \<le> MaxValue nd')
   \<and> (\<exists>dd'. updateDiskGraph_seq \<lparr>ReadData = [0, 0, 0], WriteData = [0, 0, 0], DiskMaxValue = 0.1\<rparr>
            [(4, 1), (0, 0)] = Inr dd' \<and> 0.1 \<le> DiskMaxValue dd')
   \<and> (1::real) \<le> MaxValue (updateNetworkMaxValue \<lparr>RxData = [0, 0, 4], TxData = [0, 0, 1], MaxValue = 1\<rparr>)
   \<and> (1::real) \<le> DiskMaxValue (updateDiskMaxValue \<lparr>ReadData = [0, 0, 4], WriteData = [0, 0, 1], DiskMaxValue = 1\<rparr>)"
  using scale_floor_and_upward
          [of "\<lparr>RxData = [0, 0, 0], TxData = [0, 0, 0], MaxValue = 0.1\<rparr>" "[(4, 1), (0, 0)]"
              "\<lparr>ReadData = [0, 0, 0], WriteData = [0, 0, 0], DiskMaxValue = 0.1\<rparr>"]
        scale_floor_and_upward
          [of "\<lparr>RxData = [0, 0, 4], TxData = [0, 0, 1], MaxValue = 1\<rparr>" "[]"
              "\<lparr>ReadData = [0, 0, 4], WriteData = [0, 0, 1], DiskMaxValue = 1\<rparr>"]
  by (simp add: maxInSlice_def max_f_def)


subsection \<open>The gauge animation\<close>

lemma abs_f_abs: "abs_f x = \<bar>x\<bar>"
  by (simp add: abs_f_def)

lemma animateCPUGauge_current:
  "CurrentPercent (animateCPUGauge speed g) =
     (if \<bar>TargetPercent g - CurrentPercent g\<bar> < 0.5 then TargetPercent g
      else CurrentPercent g + (TargetPercent g - CurrentPercent g) * speed)"
  by (simp add: animateCPUGauge_def Let_def abs_f_abs)

lemma animateCPUGauge_target: "TargetPercent (animateCPUGauge speed g) = TargetPercent g"
  by (simp add: animateCPUGauge_def Let_def)

lemma animate_funpow_target:
  "TargetPercent ((animateCPUGauge speed ^^ n) g) = TargetPercent g"
  by (induction n) (simp_all add: animateCPUGauge_target)

lemma animateCPUGauges_ticks_map:
  "animateCPUGauges_ticks n speed gauges = map (animateCPUGauge speed ^^ n) gauges"
  by (induction n) (simp_all add: animateCPUGauges_ticks_def animateCPUGauges_def)

text \<open>The distance to the target shrinks by the factor \<open>1 - speed\<close> or more at every tick.\<close>

lemma animate_distance_step:
  assumes "0 \<le> speed" "speed \<le> 1"
  shows "\<bar>TargetPercent g - CurrentPercent (animateCPUGauge speed g)\<bar>
           \<le> \<bar>TargetPercent g - CurrentPercent g\<bar> * (1 - speed)"
proof (cases "\<bar>TargetPercent g - CurrentPercent g\<bar> < 0.5")
  case True
  then show ?thesis using assms by (simp add: animateCPUGauge_current)
next
  case False
  have "TargetPercent g - (CurrentPercent g + (TargetPercent g - CurrentPercent g) * speed)
          = (TargetPercent g - CurrentPercent g) * (1 - speed)"
    by (simp add: algebra_simps)
  then show ?thesis
    using False assms by (simp add: animateCPUGauge_current abs_mult)
qed

lemma animate_distance:
  assumes "0 \<le> speed" "speed \<le> 1"
  shows "\<bar>TargetPercent g - CurrentPercent ((animateCPUGauge speed ^^ n) g)\<bar>
           \<le> \<bar>TargetPercent g - CurrentPercent g\<bar> * (1 - speed) ^ n"
proof (induction n)
  case 0
  then show ?case by simp
next
  case (Suc n)
  let ?g = "(animateCPUGauge speed ^^ n) g"
  have "\<bar>TargetPercent g - CurrentPercent ((animateCPUGauge speed ^^ Suc n) g)\<bar>
          = \<bar>TargetPercent ?g - CurrentPercent (animateCPUGauge speed ?g)\<bar>"
    by (simp add: animate_funpow_target)
  also have "\<dots> \<le> \<bar>TargetPercent ?g - CurrentPercent ?g\<bar> * (1 - speed)"
    using assms by (rule animate_distance_step)
  also have "\<dots> \<le> (\<bar>TargetPercent g - CurrentPercent g\<bar> * (1 - speed) ^ n) * (1 - speed)"
    using Suc.IH assms by (intro mult_right_mono) (simp_all add: animate_funpow_target)
  finally show ?case by (simp add: mult_ac)
qed

lemma animate_stays:
  "CurrentPercent g = TargetPercent g \<Longrightarrow>
   CurrentPercent ((animateCPUGauge speed ^^ n) g) = TargetPercent g"
proof (induction n)
  case 0
  then show ?case by simp
next
  case (Suc n)
  then show ?case
    by (simp add: animateCPUGauge_current animate_funpow_target)
qed

lemma animate_snaps_after:
  assumes "0 \<le> speed" "speed \<le> 1"
    and small: "\<bar>TargetPercent g - CurrentPercent g\<bar> * (1 - speed) ^ N < 0.5"
    and n: "N < n"
  shows "CurrentPercent ((animateCPUGauge speed ^^ n) g) = TargetPercent g"
proof -
  let ?h = "(animateCPUGauge speed ^^ N) g"
  have "\<bar>TargetPercent ?h - CurrentPercent ?h\<bar> < 0.5"
    using animate_distance [OF assms(1,2), of g N] small by (simp add: animate_funpow_target)
  then have snap: "CurrentPercent (animateCPUGauge speed ?h) = TargetPercent (animateCPUGauge speed ?h)"
    by (simp add: animateCPUGauge_current animateCPUGauge_target)
  obtain k where k: "n = k + Suc N"
    using n by (metis add.commute less_iff_Suc_add add_Suc_right)
  have "(animateCPUGauge speed ^^ n) g = (animateCPUGauge speed ^^ k) (animateCPUGauge speed ?h)"
    unfolding k by (simp only: funpow_add o_apply funpow.simps)
  then show ?thesis
    using animate_stays [OF snap, where n = k and speed = speed]
    by (simp add: animateCPUGauge_target animate_funpow_target)
qed

text \<open>
  Claim C7. One animation tick sets \<open>current\<close> to \<open>target\<close> when
  \<open>\<bar>target - current\<bar> < 0.5\<close> and to \<open>current + (target - current) * speed\<close>
  otherwise, for every gauge of the slice, and leaves the target unchanged. With
  \<open>current = 0\<close>, \<open>target = 80\<close> and \<open>speed = 0.03\<close>, one tick gives \<open>2.4\<close>, and from the
  168th tick on \<open>current\<close> is exactly \<open>80\<close>.
\<close>

theorem gauge_animation_tick:
  "CurrentPercent (animateCPUGauge speed g) =
     (if \<bar>TargetPercent g - CurrentPercent g\<bar> < 0.5 then TargetPercent g
      else CurrentPercent g + (TargetPercent g - CurrentPercent g) * speed)
   \<and> TargetPercent (animateCPUGauge speed g) = TargetPercent g
   \<and> map CurrentPercent (animateCPUGauges gauges speed) =
       map (\<lambda>g. if \<bar>TargetPercent g - CurrentPercent g\<bar> < 0.5 then TargetPercent g
                else CurrentPercent g + (TargetPercent g - CurrentPercent g) * speed) gauges
   \<and> map TargetPercent (animateCPUGauges gauges speed) = map TargetPercent gauges
   \<and> map CurrentPercent (animateCPUGauges [newCPUGauge\<lparr>TargetPercent := 80\<rparr>] 0.03) = [2.4]
   \<and> (\<forall>k. map CurrentPercent
            (animateCPUGauges_ticks (168 + k) 0.03 [newCPUGauge\<lparr>TargetPercent := 80\<rparr>]) = [80])"
proof (intro conjI allI)
  fix k :: nat
  let ?g = "newCPUGauge\<lparr>TargetPercent := 80\<rparr>"
  have "\<bar>TargetPercent ?g - CurrentPercent ?g\<bar> * (1 - 0.03) ^ 167 < 0.5"
    by (simp add: newCPUGauge_def power_divide)
  then have "CurrentPercent ((animateCPUGauge 0.03 ^^ (168 + k)) ?g) = TargetPercent ?g"
    by (intro animate_snaps_after [of "0.03" ?g 167]) simp_all
  then show "map CurrentPercent (animateCPUGauges_ticks (168 + k) 0.03 [?g]) = [80]"
    by (simp add: animateCPUGauges_ticks_map)
qed (simp_all add: animateCPUGauge_current animateCPUGauge_target animateCPUGauges_def
      newCPUGauge_def)

subsection \<open>Rounding to \<open>float64\<close>\<close>








lemma powi2_le_cancel: "(2::real) powi a \<le> 2 powi b \<Longrightarrow> a \<le> b"
  using power_int_strict_increasing [of b a "2::real"] by (cases "a \<le> b") simp_all

lemma float64_round_0 [simp]: "float64_round 0 = 0"
  by (simp add: float64_round_def)






subsection \<open>The gauge animation in \<open>float64\<close> arithmetic\<close>

























subsection \<open>The rate computation\<close>

lemma bytesPerSec_nonzero:
  "duration \<noteq> 0 \<Longrightarrow> bytesPerSec c p duration = Quot (real (unat (c - p)) / duration)"
  by (simp add: bytesPerSec_def fdiv_def)

lemma bytesPerSec_zero: "bytesPerSec c p 0 = (if c = p then NaN else PosInf)"
proof (cases "c = p")
  case True
  then show ?thesis by (simp add: bytesPerSec_def fdiv_def)
next
  case False
  then have "0 < unat (c - p)" by (simp add: unat_gt_0)
  then have "0 < real (unat (c - p))" by (simp only: of_nat_0_less_iff)
  then show ?thesis using False by (simp add: bytesPerSec_def fdiv_def)
qed

lemma unat_counter_diff: "p \<le> c \<Longrightarrow> unat (c - p) = unat c - unat (p :: 64 word)"
  by (simp add: unat_sub)

text \<open>
  Claim C1 as stated fails: the rate expression has no guard on the duration. At a
  negative duration the rate is the (negative) quotient, and at a zero duration it is
  an infinity, not \<open>0\<close>.
\<close>

theorem rate_no_guard_counterexample:
  "bytesPerSec 1000 0 (-1) = Quot (-1000) \<and> bytesPerSec 1000 0 (-1) \<noteq> Quot 0
   \<and> bytesPerSec 1000 0 0 = PosInf \<and> bytesPerSec 1000 0 0 \<noteq> Quot 0"
  by (simp add: bytesPerSec_def fdiv_def)

text \<open>
  Claim C1, as amended. For every pair of \<open>uint64\<close> counter readings and every elapsed
  duration other than zero, positive or negative, the rate is the difference of the
  counters (taken modulo \<open>2^64\<close>, which is \<open>curr - prev\<close> when \<open>prev \<le> curr\<close>) divided by
  the duration. At a zero duration the rate is \<open>+Inf\<close>, or \<open>NaN\<close> when the counters are
  equal.
\<close>

theorem rate_computation:
  "(duration \<noteq> 0 \<longrightarrow> bytesPerSec c p duration = Quot (real (unat (c - p)) / duration))
   \<and> (p \<le> c \<longrightarrow> real (unat (c - p)) = real (unat c) - real (unat p))
   \<and> bytesPerSec c p 0 = (if c = p then NaN else PosInf)"
  using bytesPerSec_nonzero [of duration c p] bytesPerSec_zero [of c p]
    unat_counter_diff [of p c]
  by (auto simp: word_le_nat_alt)

theorem rate_computation_witness:
  "bytesPerSec 2000 1000 1 = Quot 1000 \<and> bytesPerSec 2000 1000 (-2) = Quot (-500)
   \<and> bytesPerSec 2000 1000 0 = PosInf"
  using rate_computation [of 1 2000 1000] rate_computation [of "-2" 2000 1000]
  by simp

subsection \<open>Failing collection calls\<close>

text \<open>
  A tick whose calls succeed does change the state. The end-to-end scenario of the
  specification: counters \<open>1000/500\<close> at time \<open>0\<close> and \<open>2000/1500\<close> one second later give
  \<open>1000\<close> bytes per second, that is \<open>0.008\<close> Mbps, in both directions; a disk that read
  two MiB in one second gives \<open>2\<close> MB/s, and a disk without a previous reading only
  enters the previous-counter map.
\<close>

lemma tickNetwork_scenario:
  "tickNetwork sprintf 1
     ([\<lparr>BytesRecv = 2000, BytesSent = 1500\<rparr>], None)
     \<lparr>cpuGauges = [], netData = \<lparr>RxData = [0, 0], TxData = [0, 0], MaxValue = 0.1\<rparr>,
      netText = [], prevNetIOStats = \<lparr>BytesRecv = 1000, BytesSent = 500\<rparr>,
      lastNetworkUpdate = 0,
      diskData = \<lparr>ReadData = [0, 0], WriteData = [0, 0], DiskMaxValue = 0.1\<rparr>,
      diskText = [], prevDiskIOStats = Map.empty, lastDiskUpdate = 0\<rparr>
   = Inr \<lparr>cpuGauges = [], netData = \<lparr>RxData = [0, 0.008], TxData = [0, 0.008], MaxValue = 0.1\<rparr>,
      netText = sprintf 0.008 0.008 2000 1500,
      prevNetIOStats = \<lparr>BytesRecv = 2000, BytesSent = 1500\<rparr>,
      lastNetworkUpdate = 1,
      diskData = \<lparr>ReadData = [0, 0], WriteData = [0, 0], DiskMaxValue = 0.1\<rparr>,
      diskText = [], prevDiskIOStats = Map.empty, lastDiskUpdate = 0\<rparr>"
  by (simp add: tickNetwork_def bytesPerSec_def fdiv_def updateNetworkGraph_def
      shiftNetworkData_eq addNetworkData_def updateNetworkMaxValue_def maxInSlice_def max_f_def Let_def)

lemma tickDisk_scenario:
  "tickDisk sprintf 2
     ([(''sda'', \<lparr>ReadBytes = 3145728, WriteBytes = 1048576\<rparr>),
       (''sdb'', \<lparr>ReadBytes = 7, WriteBytes = 7\<rparr>)], None)
     \<lparr>cpuGauges = [], netData = \<lparr>RxData = [0, 0], TxData = [0, 0], MaxValue = 0.1\<rparr>,
      netText = [], prevNetIOStats = \<lparr>BytesRecv = 1000, BytesSent = 500\<rparr>,
      lastNetworkUpdate = 0,
      diskData = \<lparr>ReadData = [0, 0], WriteData = [0, 0], DiskMaxValue = 0.1\<rparr>,
      diskText = [], prevDiskIOStats = [''sda'' \<mapsto> \<lparr>ReadBytes = 1048576, WriteBytes = 1048576\<rparr>],
      lastDiskUpdate = 1\<rparr>
   = Inr \<lparr>cpuGauges = [], netData = \<lparr>RxData = [0, 0], TxData = [0, 0], MaxValue = 0.1\<rparr>,
      netText = [], prevNetIOStats = \<lparr>BytesRecv = 1000, BytesSent = 500\<rparr>,
      lastNetworkUpdate = 0,
      diskData = \<lparr>ReadData = [0, 2], WriteData = [0, 0], DiskMaxValue = 0.67\<rparr>,
      diskText = sprintf ''sda'' 2 0,
      prevDiskIOStats = [''sda'' \<mapsto> \<lparr>ReadBytes = 3145728, WriteBytes = 1048576\<rparr>,
                         ''sdb'' \<mapsto> \<lparr>ReadBytes = 7, WriteBytes = 7\<rparr>],
      lastDiskUpdate = 2\<rparr>"
  by (simp add: tickDisk_def bytesPerSec_def fdiv_def updateDiskGraph_def
      shiftDiskData_eq addDiskData_def updateDiskMaxValue_def maxInSlice_def max_f_def Let_def)

text \<open>
  Claim C2, at the failing input. A failing baseline reading of the network counters
  that returns no counters is logged, and the slice is then indexed: the program
  panics with an index out of range and the initialisation does not complete. The
  sibling paths recover: a failing baseline reading of the disk counters gives an empty
  map, and a tick whose network or disk call fails leaves the state unchanged.
\<close>

theorem baseline_failure_panics:
  "baselineNetIOStats ([], Some msg) = Inl IndexOutOfRange
   \<and> initMonitor termWidth (4, None) ([], Some msg) netNow diskIOCounters diskNow
       = Inl IndexOutOfRange
   \<and> baselineDiskIOStats ([], Some msg) = Map.empty
   \<and> tickNetwork sprintf now (netIOCounters, Some msg) st = Inr st
   \<and> tickDisk sprintf' now (diskIOCounters', Some msg) st = Inr st"
  by (simp add: baselineNetIOStats_def initMonitor_def createCPUGauges_def
      baselineDiskIOStats_def tickNetwork_def tickDisk_def)

subsection \<open>The ranking of the processes\<close>






subsection \<open>The resize event\<close>

lemma createCPUGauges_ok:
  assumes "0 \<le> (case snd counts of Some err \<Rightarrow> 1 | None \<Rightarrow> fst counts)"
  shows "createCPUGauges counts =
    Inr (replicate (nat ((case snd counts of Some err \<Rightarrow> 1 | None \<Rightarrow> fst counts) + 1)) newCPUGauge)"
  using assms by (simp add: createCPUGauges_def Let_def)

lemma createCPUGauges_zero:
  "createCPUGauges counts = Inr gauges \<Longrightarrow>
   \<forall>g\<in>set gauges. CurrentPercent g = 0 \<and> TargetPercent g = 0"
  by (auto simp add: createCPUGauges_def Let_def newCPUGauge_def split: if_splits)

text \<open>Whenever the handler completes, every gauge is back at zero.\<close>

lemma handleResize_gauges_zero:
  assumes "handleResize counts termWidth st = Inr st'"
  shows "\<forall>g\<in>set (cpuGauges st'). CurrentPercent g = 0 \<and> TargetPercent g = 0"
proof -
  from assms obtain gauges where g: "createCPUGauges counts = Inr gauges" "cpuGauges st' = gauges"
    by (auto simp add: handleResize_def split: sum.splits)
  from createCPUGauges_zero [OF g(1)] g(2) show ?thesis by simp
qed

lemma growNetworkData_suffix:
  assumes "length (TxData nd) = length (RxData nd)"
  shows "\<exists>nd' k. growNetworkData n nd = Inr nd'
           \<and> RxData nd' = replicate k 0 @ RxData nd
           \<and> TxData nd' = replicate k 0 @ TxData nd \<and> MaxValue nd' = MaxValue nd"
proof (cases "int (length (RxData nd)) < n")
  case True
  then show ?thesis
    using assms by (simp add: growNetworkData_grows)
next
  case False
  then have "growNetworkData n nd = Inr nd" by (simp add: growNetworkData_keeps)
  then show ?thesis by (intro exI [of _ nd] exI [of _ 0]) simp
qed

lemma growDiskData_suffix:
  assumes "length (WriteData dd) = length (ReadData dd)"
  shows "\<exists>dd' k. growDiskData n dd = Inr dd'
           \<and> ReadData dd' = replicate k 0 @ ReadData dd
           \<and> WriteData dd' = replicate k 0 @ WriteData dd \<and> DiskMaxValue dd' = DiskMaxValue dd"
proof (cases "int (length (ReadData dd)) < n")
  case True
  then show ?thesis
    using assms by (simp add: growDiskData_grows)
next
  case False
  then have "growDiskData n dd = Inr dd" by (simp add: growDiskData_keeps)
  then show ?thesis by (intro exI [of _ dd] exI [of _ 0]) simp
qed

text \<open>
  Claim C10. A resize event (with history buffers of pairwise equal lengths and a
  non-negative core count) recreates every gauge, the aggregate and the per-core
  ones, with current and target percent \<open>0\<close>, whatever the gauges showed before; the
  network and disk history buffers keep their contents, behind the zeros that pad a
  grown buffer, and the scales are kept.
\<close>

theorem resize_resets_gauges:
  assumes "length (TxData (netData st)) = length (RxData (netData st))"
    and "length (WriteData (diskData st)) = length (ReadData (diskData st))"
    and "0 \<le> (case snd counts of Some err \<Rightarrow> 1 | None \<Rightarrow> fst counts)"
  shows "\<exists>st' k j. handleResize counts termWidth st = Inr st'
      \<and> cpuGauges st' =
          replicate (nat ((case snd counts of Some err \<Rightarrow> 1 | None \<Rightarrow> fst counts) + 1)) newCPUGauge
      \<and> (\<forall>g\<in>set (cpuGauges st'). CurrentPercent g = 0 \<and> TargetPercent g = 0)
      \<and> RxData (netData st') = replicate k 0 @ RxData (netData st)
      \<and> TxData (netData st') = replicate k 0 @ TxData (netData st)
      \<and> MaxValue (netData st') = MaxValue (netData st)
      \<and> ReadData (diskData st') = replicate j 0 @ ReadData (diskData st)
      \<and> WriteData (diskData st') = replicate j 0 @ WriteData (diskData st)
      \<and> DiskMaxValue (diskData st') = DiskMaxValue (diskData st)"
proof -
  let ?gs = "replicate (nat ((case snd counts of Some err \<Rightarrow> 1 | None \<Rightarrow> fst counts) + 1)) newCPUGauge"
  have g: "createCPUGauges counts = Inr ?gs"
    using assms(3) by (rule createCPUGauges_ok)
  from growNetworkData_suffix [OF assms(1), of "dataPointCount termWidth"]
  obtain nd' k where nd: "growNetworkData (dataPointCount termWidth) (netData st) = Inr nd'"
    "RxData nd' = replicate k 0 @ RxData (netData st)"
    "TxData nd' = replicate k 0 @ TxData (netData st)" "MaxValue nd' = MaxValue (netData st)"
    by blast
  from growDiskData_suffix [OF assms(2), of "dataPointCount termWidth"]
  obtain dd' j where dd: "growDiskData (dataPointCount termWidth) (diskData st) = Inr dd'"
    "ReadData dd' = replicate j 0 @ ReadData (diskData st)"
    "WriteData dd' = replicate j 0 @ WriteData (diskData st)"
    "DiskMaxValue dd' = DiskMaxValue (diskData st)"
    by blast
  have "handleResize counts termWidth st
          = Inr (st\<lparr>cpuGauges := ?gs, netData := nd', diskData := dd'\<rparr>)"
    by (simp add: handleResize_def g nd dd)
  moreover have "\<forall>g\<in>set ?gs. CurrentPercent g = 0 \<and> TargetPercent g = 0"
    by (simp add: newCPUGauge_def)
  ultimately show ?thesis
    using nd dd
    by (intro exI [of _ "st\<lparr>cpuGauges := ?gs, netData := nd', diskData := dd'\<rparr>"]
        exI [of _ k] exI [of _ j]) simp
qed

theorem resize_resets_gauges_witness:
  "\<exists>st'. handleResize (1, None) 120
          \<lparr>cpuGauges =
            [\<lparr>CurrentPercent = 42, TargetPercent = 80, Percent = 42, BarColor = ColorGreen\<rparr>,
             \<lparr>CurrentPercent = 90, TargetPercent = 10, Percent = 90, BarColor = ColorRed\<rparr>],
          netData = \<lparr>RxData = [1, 2], TxData = [3, 4], MaxValue = 4\<rparr>,
          netText = ''net'',
          prevNetIOStats = \<lparr>BytesRecv = 10, BytesSent = 20\<rparr>,
          lastNetworkUpdate = 7,
          diskData = \<lparr>ReadData = [5, 6], WriteData = [7, 8], DiskMaxValue = 8\<rparr>,
          diskText = ''disk'',
          prevDiskIOStats = Map.empty,
          lastDiskUpdate = 7\<rparr> = Inr st'
      \<and> map CurrentPercent (cpuGauges st') = [0, 0]
      \<and> map TargetPercent (cpuGauges st') = [0, 0]
      \<and> (\<exists>k. RxData (netData st') = replicate k 0 @ [1, 2]
              \<and> TxData (netData st') = replicate k 0 @ [3, 4])
      \<and> (\<exists>j. ReadData (diskData st') = replicate j 0 @ [5, 6]
              \<and> WriteData (diskData st') = replicate j 0 @ [7, 8])"
proof -
  let ?st = "\<lparr>cpuGauges =
            [\<lparr>CurrentPercent = 42, TargetPercent = 80, Percent = 42, BarColor = ColorGreen\<rparr>,
             \<lparr>CurrentPercent = 90, TargetPercent = 10, Percent = 90, BarColor = ColorRed\<rparr>],
          netData = \<lparr>RxData = [1, 2], TxData = [3, 4], MaxValue = 4\<rparr>,
          netText = ''net'',
          prevNetIOStats = \<lparr>BytesRecv = 10, BytesSent = 20\<rparr>,
          lastNetworkUpdate = 7,
          diskData = \<lparr>ReadData = [5, 6], WriteData = [7, 8], DiskMaxValue = 8\<rparr>,
          diskText = ''disk'',
          prevDiskIOStats = Map.empty,
          lastDiskUpdate = 7\<rparr>"
  have a: "length (TxData (netData ?st)) = length (RxData (netData ?st))" by simp
  have b: "length (WriteData (diskData ?st)) = length (ReadData (diskData ?st))" by simp
  have c: "0 \<le> (case snd (1::int, None::string option) of Some err \<Rightarrow> 1 | None \<Rightarrow> fst (1::int, None::string option))"
    by simp
  from resize_resets_gauges [OF a b c, of 120]
  obtain st' k j where st': "handleResize (1, None) 120 ?st = Inr st'"
    "cpuGauges st' = replicate (nat ((case snd (1::int, None::string option) of Some err \<Rightarrow> 1
        | None \<Rightarrow> fst (1::int, None::string option)) + 1)) newCPUGauge"
    "RxData (netData st') = replicate k 0 @ RxData (netData ?st)"
    "TxData (netData st') = replicate k 0 @ TxData (netData ?st)"
    "ReadData (diskData st') = replicate j 0 @ ReadData (diskData ?st)"
    "WriteData (diskData st') = replicate j 0 @ WriteData (diskData ?st)"
    by blast
  have g: "map CurrentPercent (cpuGauges st') = [0, 0]" "map TargetPercent (cpuGauges st') = [0, 0]"
    using st'(2) by (simp_all add: newCPUGauge_def numeral_2_eq_2)
  have n: "\<exists>k. RxData (netData st') = replicate k 0 @ [1, 2]
              \<and> TxData (netData st') = replicate k 0 @ [3, 4]"
    using st'(3,4) by auto
  have d: "\<exists>j. ReadData (diskData st') = replicate j 0 @ [5, 6]
              \<and> WriteData (diskData st') = replicate j 0 @ [7, 8]"
    using st'(5,6) by auto
  show ?thesis
    by (rule exI [of _ st']) (simp only: st'(1) g n d simp_thms)
qed

end
